theory Spec2Isabelle
  imports Main "HOL-Library.Word"
begin

section \<open>The property store of propsProblem.cpp\<close>

text \<open>
  A shallow embedding of \<^verbatim>\<open>src/propsProblem/propsProblem.cpp\<close>: the value cell
  (\<^verbatim>\<open>BaseProperty\<close>, \<^verbatim>\<open>Property<T>\<close>), the class \<^verbatim>\<open>Bounds\<close> and the store
  \<^verbatim>\<open>Properties\<close> with its \<^verbatim>\<open>set\<close> and its two \<^verbatim>\<open>get\<close> overloads.

  The file is read the way the compiler it was written for reads it: the member template
  \<^verbatim>\<open>template <class T> std::optional<T> get()\<close> of \<^verbatim>\<open>Property<T>\<close> has a parameter of its
  own that hides the class's \<^verbatim>\<open>T\<close>, and \<^verbatim>\<open>.get<ValueType>()\<close> in \<^verbatim>\<open>Properties::get\<close> names
  a member template of the static type of its object.
\<close>

subsection \<open>Machine types\<close>

text \<open>\<^verbatim>\<open>int\<close> is 32 bits wide and \<^verbatim>\<open>std::size_t\<close> 64 bits (an LP64 or LLP64 target).\<close>

type_synonym int32 = "32 word"
type_synonym size_t = "64 word"

text \<open>
  What a call can end in instead of a result. \<open>bad_optional_access\<close> is the exception
  \<^verbatim>\<open>std::bad_optional_access\<close> that \<^verbatim>\<open>std::optional::value()\<close> throws on an empty optional.
  \<open>ill_formed\<close> marks an instantiation of a template whose body the compiler rejects: no
  program contains such a call.
\<close>

datatype error = bad_optional_access | ill_formed

subsection \<open>Enumerations (lines 40-93)\<close>

text \<open>
  Each \<^verbatim>\<open>enum class\<close> is a datatype; its members are numbered from 0 in the order of
  their declaration, which the \<open>_underlying\<close> function returns.
\<close>

datatype BuildingType =
    BuildingType_Invalid
  | BuildingType_TownCenter
  | BuildingType_Barracks
  | BuildingType_ArcheryRange
  | BuildingType_Stable
  | BuildingType_Monastery
  | BuildingType_SiegeWorkshop

fun BuildingType_underlying :: "BuildingType \<Rightarrow> int" where
  "BuildingType_underlying BuildingType_Invalid = 0"
| "BuildingType_underlying BuildingType_TownCenter = 1"
| "BuildingType_underlying BuildingType_Barracks = 2"
| "BuildingType_underlying BuildingType_ArcheryRange = 3"
| "BuildingType_underlying BuildingType_Stable = 4"
| "BuildingType_underlying BuildingType_Monastery = 5"
| "BuildingType_underlying BuildingType_SiegeWorkshop = 6"

datatype CommonPropertyId =
    CommonPropertyId_Invalid
  | CommonPropertyId_HealthPoints
  | CommonPropertyId_Bounds

fun CommonPropertyId_underlying :: "CommonPropertyId \<Rightarrow> int" where
  "CommonPropertyId_underlying CommonPropertyId_Invalid = 0"
| "CommonPropertyId_underlying CommonPropertyId_HealthPoints = 1"
| "CommonPropertyId_underlying CommonPropertyId_Bounds = 2"

datatype BuildingPropertyId =
    BuildingPropertyId_Invalid
  | BuildingPropertyId_BuildingType
  | BuildingPropertyId_Bounds

fun BuildingPropertyId_underlying :: "BuildingPropertyId \<Rightarrow> int" where
  "BuildingPropertyId_underlying BuildingPropertyId_Invalid = 0"
| "BuildingPropertyId_underlying BuildingPropertyId_BuildingType = 1"
| "BuildingPropertyId_underlying BuildingPropertyId_Bounds = 2"

subsection \<open>Bounds (lines 137-178)\<close>

record Bounds =
  mX :: int32
  mY :: int32
  mWidth :: int32
  mHeight :: int32

definition Bounds_init :: "int32 \<Rightarrow> int32 \<Rightarrow> int32 \<Rightarrow> int32 \<Rightarrow> Bounds" where
  "Bounds_init x y width height = \<lparr>mX = x, mY = y, mWidth = width, mHeight = height\<rparr>"

text \<open>
  \<^verbatim>\<open>a + b\<close> on \<^verbatim>\<open>int\<close>: the sum when it fits in 32 bits; signed overflow is
  undefined behaviour, \<open>None\<close> here.
\<close>

definition int_add :: "int32 \<Rightarrow> int32 \<Rightarrow> int32 option" where
  "int_add a b =
     (if - (2 ^ 31) \<le> sint a + sint b \<and> sint a + sint b < 2 ^ 31 then Some (a + b) else None)"

text \<open>
  \<^verbatim>\<open>x >= this->x() && x <= this->x() + width() && y >= this->y() && y <= this->y() + height()\<close>.
  \<^verbatim>\<open>&&\<close> evaluates its right operand only when the left one is true, so a sum is
  computed only when the comparisons before it hold. The comparisons are signed.
\<close>

definition contains :: "Bounds \<Rightarrow> int32 \<Rightarrow> int32 \<Rightarrow> bool option" where
  "contains b x y =
     (if sint x < sint (mX b) then Some False
      else case int_add (mX b) (mWidth b) of
        None \<Rightarrow> None
      | Some right \<Rightarrow>
          if sint right < sint x then Some False
          else if sint y < sint (mY b) then Some False
          else case int_add (mY b) (mHeight b) of
            None \<Rightarrow> None
          | Some bottom \<Rightarrow> Some (sint y \<le> sint bottom))"

subsection \<open>Values and their types\<close>

text \<open>
  The value types of the program: \<^verbatim>\<open>int\<close>, \<^verbatim>\<open>bool\<close>, any \<^verbatim>\<open>enum class\<close> (its name and
  the underlying value of the member) and \<^verbatim>\<open>Bounds\<close>. \<open>ty\<close> is what a template argument
  \<^verbatim>\<open>ValueType\<close> or \<^verbatim>\<open>T\<close> ranges over.
\<close>

datatype ty = IntT | BoolT | EnumT string | BoundsT

datatype val = IntV int32 | BoolV bool | EnumV string int | BoundsV Bounds

fun type_of :: "val \<Rightarrow> ty" where
  "type_of (IntV i) = IntT"
| "type_of (BoolV b) = BoolT"
| "type_of (EnumV n u) = EnumT n"
| "type_of (BoundsV b) = BoundsT"

definition BuildingType_val :: "BuildingType \<Rightarrow> val" where
  "BuildingType_val e = EnumV ''BuildingType'' (BuildingType_underlying e)"

text \<open>
  Copy-initialisation of a \<^verbatim>\<open>std::optional<T>\<close> from an object of another type: the
  implicit conversions among the value types. \<^verbatim>\<open>int\<close> and \<^verbatim>\<open>bool\<close> convert to each
  other; a scoped enumeration and \<^verbatim>\<open>Bounds\<close> convert to nothing else and nothing else
  converts to them. \<open>None\<close>: there is no conversion, the initialisation does not compile.
\<close>

fun implicit_conversion :: "val \<Rightarrow> ty \<Rightarrow> val option" where
  "implicit_conversion (IntV i) IntT = Some (IntV i)"
| "implicit_conversion (IntV i) BoolT = Some (BoolV (i \<noteq> 0))"
| "implicit_conversion (BoolV b) BoolT = Some (BoolV b)"
| "implicit_conversion (BoolV b) IntT = Some (IntV (if b then 1 else 0))"
| "implicit_conversion (EnumV n u) (EnumT m) = (if n = m then Some (EnumV n u) else None)"
| "implicit_conversion (BoundsV b) BoundsT = Some (BoundsV b)"
| "implicit_conversion v T = None"

subsection \<open>The value cell (lines 95-131)\<close>

text \<open>
  An object of class \<^verbatim>\<open>Property<T>\<close>: its only member is \<^verbatim>\<open>mObj\<close>, and \<^verbatim>\<open>T\<close> is the
  type of the value held. The constructor copies its argument into \<^verbatim>\<open>mObj\<close>.
\<close>

datatype Property = Property (mObj: val)

text \<open>
  \<^verbatim>\<open>BaseProperty::get<T>()\<close>: \<^verbatim>\<open>return std::nullopt;\<close>. The function is not virtual (a
  member template cannot be), so this is what a call through a \<^verbatim>\<open>BaseProperty\<close> pointer or
  reference runs, whatever the class of the object.
\<close>

definition BaseProperty_get :: "Property \<Rightarrow> ty \<Rightarrow> val option" where
  "BaseProperty_get c T = None"

text \<open>
  \<^verbatim>\<open>Property<A>::get<T>()\<close>: \<^verbatim>\<open>return mObj;\<close> with the return type \<^verbatim>\<open>std::optional<T>\<close>:
  the optional holds \<^verbatim>\<open>mObj\<close> converted to \<^verbatim>\<open>T\<close>.
\<close>

definition Property_get :: "Property \<Rightarrow> ty \<Rightarrow> error + val option" where
  "Property_get c T =
     (case implicit_conversion (mObj c) T of
        None \<Rightarrow> Inl ill_formed
      | Some w \<Rightarrow> Inr (Some w))"

subsection \<open>Identifiers and their keys\<close>

text \<open>
  \<^verbatim>\<open>std::hash\<close> belongs to the standard library, not to this program, and the standard
  fixes no values for it: it is a parameter of the model. \<open>hash_size_t\<close> is
  \<^verbatim>\<open>std::hash<size_t>{}\<close> and \<open>hash_IdType\<close> is \<^verbatim>\<open>std::hash<IdType>{}\<close> for the
  identifier type \<open>'i\<close>.
\<close>

record 'i std_hash =
  hash_size_t :: "size_t \<Rightarrow> size_t"
  hash_IdType :: "'i \<Rightarrow> size_t"

text \<open>
  An instance of the parameter for \<^verbatim>\<open>IdType = int\<close>: a hash that returns an integer as
  it is, converted to \<^verbatim>\<open>size_t\<close> (what libstdc++ does).
\<close>

definition identity_hash :: "int32 std_hash" where
  "identity_hash = \<lparr>hash_size_t = (\<lambda>x. x), hash_IdType = (\<lambda>i. word_of_int (sint i))\<rparr>"

text \<open>
  An identifier, by the branch of \<^verbatim>\<open>if constexpr\<close> its type \<^verbatim>\<open>IdType\<close> selects:
  \<^item> \<open>EnumId n u\<close>: \<^verbatim>\<open>std::is_enum<IdType>\<close> holds; \<open>n\<close> is the name of the enumeration
    and \<open>u\<close> the underlying value of the member;
  \<^item> \<open>TrivialId i\<close>: not an enumeration, \<^verbatim>\<open>std::is_trivial<IdType>\<close> holds; \<open>i\<close> is the
    identifier itself;
  \<^item> \<open>OtherId sz\<close>: neither; \<open>sz\<close> is \<^verbatim>\<open>sizeof(IdType)\<close>.
\<close>

datatype 'i ident = EnumId string int | TrivialId 'i | OtherId nat

definition BuildingPropertyId_id :: "BuildingPropertyId \<Rightarrow> 'i ident" where
  "BuildingPropertyId_id e = EnumId ''BuildingPropertyId'' (BuildingPropertyId_underlying e)"

definition CommonPropertyId_id :: "CommonPropertyId \<Rightarrow> 'i ident" where
  "CommonPropertyId_id e = EnumId ''CommonPropertyId'' (CommonPropertyId_underlying e)"

text \<open>
  The key \<^verbatim>\<open>Properties::set\<close> inserts at (lines 190-203).
  \<^item> enumeration: \<^verbatim>\<open>std::hash<size_t>{}(static_cast<std::size_t>(id))\<close>; the cast takes
    the underlying value modulo \<open>2^64\<close>;
  \<^item> trivial type: \<^verbatim>\<open>std::hash<IdType>{}(id)\<close>;
  \<^item> otherwise: \<^verbatim>\<open>mProperties.insert({ std::hash<size_t>{}(sizeof(IdType), newprop) })\<close>
    calls the hash with two arguments, which its \<^verbatim>\<open>operator()\<close> does not take: the
    branch does not compile, \<open>None\<close>.
\<close>

fun set_key :: "'i std_hash \<Rightarrow> 'i ident \<Rightarrow> size_t option" where
  "set_key h (EnumId n u) = Some (hash_size_t h (word_of_int u))"
| "set_key h (TrivialId i) = Some (hash_IdType h i)"
| "set_key h (OtherId sz) = None"

text \<open>
  The key \<^verbatim>\<open>Properties::get\<close> looks up (lines 211-238).
  \<^item> enumeration: \<^verbatim>\<open>std::hash<size_t> {} (static_cast<std::size_t>(id))\<close>;
  \<^item> trivial type: \<^verbatim>\<open>std::hash<size_t> {} (std::hash(id))\<close>; \<^verbatim>\<open>std::hash(id)\<close> names the
    class template without an argument and constructs it from \<^verbatim>\<open>id\<close>, for which
    no template argument can be deduced: the branch does not compile, \<open>None\<close>;
  \<^item> otherwise: \<^verbatim>\<open>std::hash<size_t> {} (idSize)\<close> with \<^verbatim>\<open>idSize = sizeof(IdType)\<close>.
\<close>

fun get_key :: "'i std_hash \<Rightarrow> 'i ident \<Rightarrow> size_t option" where
  "get_key h (EnumId n u) = Some (hash_size_t h (word_of_int u))"
| "get_key h (TrivialId i) = None"
| "get_key h (OtherId sz) = Some (hash_size_t h (of_nat sz))"

subsection \<open>The store (lines 181-254)\<close>

text \<open>
  \<^verbatim>\<open>std::unordered_map<size_t, std::shared_ptr<BaseProperty>> mProperties\<close>. Every
  pointer in the map refers to a \<^verbatim>\<open>Property<ValueType>\<close> object that \<^verbatim>\<open>set\<close> made and
  nothing else holds, so the map is modelled from keys to the objects themselves.
\<close>

record Properties =
  mProperties :: "size_t \<rightharpoonup> Property"

text \<open>A new store: \<^verbatim>\<open>mProperties = {}\<close>.\<close>

definition Properties_init :: Properties where
  "Properties_init = \<lparr>mProperties = Map.empty\<rparr>"

text \<open>
  \<^verbatim>\<open>std::unordered_map::insert\<close>: the pair is inserted when the map has no element with
  its key; a map that has one is left as it is.
\<close>

definition unordered_map_insert :: "('k \<rightharpoonup> 'v) \<Rightarrow> 'k \<Rightarrow> 'v \<Rightarrow> ('k \<rightharpoonup> 'v)" where
  "unordered_map_insert m k v = (case m k of None \<Rightarrow> m(k \<mapsto> v) | Some old \<Rightarrow> m)"

text \<open>
  \<^verbatim>\<open>Properties::set<IdType, ValueType>(id, value)\<close> with an rvalue \<^verbatim>\<open>value\<close>, as in
  \<^verbatim>\<open>main\<close> (lines 185-206). The call returns nothing; the model returns how the call
  ends and the store after it.
\<close>

definition Properties_set ::
  "'i std_hash \<Rightarrow> 'i ident \<Rightarrow> val \<Rightarrow> Properties \<Rightarrow> (error + unit) \<times> Properties" where
  "Properties_set h id' v props =
     (let newprop = Property v in
      case set_key h id' of
        None \<Rightarrow> (Inl ill_formed, props)
      | Some hash \<Rightarrow>
          (Inr (), props\<lparr>mProperties := unordered_map_insert (mProperties props) hash newprop\<rparr>))"

text \<open>\<^verbatim>\<open>std::optional::value()\<close>: the value held, or the exception.\<close>

definition optional_value :: "'a option \<Rightarrow> error + 'a" where
  "optional_value opt = (case opt of None \<Rightarrow> Inl bad_optional_access | Some v \<Rightarrow> Inr v)"

text \<open>
  \<^verbatim>\<open>Properties::get<IdType, ValueType>(id)\<close> (lines 208-239). In each branch:
  \<^verbatim>\<open>find\<close> the key; when it is there,
  \<^verbatim>\<open>return (*(res->second.get())).get<ValueType>().value();\<close>, else
  \<^verbatim>\<open>return std::nullopt;\<close>. \<^verbatim>\<open>res->second.get()\<close> is a \<^verbatim>\<open>BaseProperty*\<close>, so the
  \<^verbatim>\<open>get<ValueType>\<close> called is \<^verbatim>\<open>BaseProperty\<close>'s. The function is \<^verbatim>\<open>const\<close> and assigns
  nothing: the store is returned as it came.
\<close>

definition Properties_get ::
  "'i std_hash \<Rightarrow> 'i ident \<Rightarrow> ty \<Rightarrow> Properties \<Rightarrow> (error + val option) \<times> Properties" where
  "Properties_get h id' ValueType props =
     (case get_key h id' of
        None \<Rightarrow> (Inl ill_formed, props)
      | Some k \<Rightarrow>
          (case mProperties props k of
             Some res \<Rightarrow>
               (case optional_value (BaseProperty_get res ValueType) of
                  Inl e \<Rightarrow> (Inl e, props)
                | Inr v \<Rightarrow> (Inr (Some v), props))
           | None \<Rightarrow> (Inr None, props)))"

text \<open>
  \<^verbatim>\<open>Properties::get<IdType, ValueType>(id, fallback)\<close> (lines 241-250); \<^verbatim>\<open>ValueType\<close> is
  the type of \<^verbatim>\<open>fallback\<close>. An exception of the inner \<^verbatim>\<open>get\<close> passes through.
\<close>

definition Properties_get_fallback ::
  "'i std_hash \<Rightarrow> 'i ident \<Rightarrow> val \<Rightarrow> Properties \<Rightarrow> (error + val) \<times> Properties" where
  "Properties_get_fallback h id' fallback props =
     (case Properties_get h id' (type_of fallback) props of
        (Inl e, props') \<Rightarrow> (Inl e, props')
      | (Inr None, props') \<Rightarrow> (Inr fallback, props')
      | (Inr (Some v), props') \<Rightarrow> (Inr v, props'))"

subsection \<open>Sequences of calls\<close>

text \<open>The store after a sequence of \<^verbatim>\<open>set\<close> calls, first call first.\<close>

fun sets :: "'i std_hash \<Rightarrow> ('i ident \<times> val) list \<Rightarrow> Properties \<Rightarrow> Properties" where
  "sets h [] props = props"
| "sets h ((id', v) # calls) props = sets h calls (snd (Properties_set h id' v props))"

text \<open>
  The store of the entity of \<^verbatim>\<open>main\<close> after its two \<^verbatim>\<open>set\<close> calls (lines 283-285).
\<close>

definition main_props :: "'i std_hash \<Rightarrow> Properties" where
  "main_props h =
     sets h
       [(BuildingPropertyId_id BuildingPropertyId_BuildingType,
         BuildingType_val BuildingType_TownCenter),
        (BuildingPropertyId_id BuildingPropertyId_Bounds, BoundsV (Bounds_init 0 0 2 2))]
       Properties_init"

section \<open>Theorems\<close>

subsection \<open>Lemmas about the store\<close>

lemma unordered_map_insert_present:
  "unordered_map_insert m k v k \<noteq> None"
  by (simp add: unordered_map_insert_def split: option.splits)

lemma unordered_map_insert_other:
  "k' \<noteq> k \<Longrightarrow> unordered_map_insert m k v k' = m k'"
  by (simp add: unordered_map_insert_def split: option.splits)

lemma unordered_map_insert_kept:
  "m k' = Some c \<Longrightarrow> unordered_map_insert m k v k' = Some c"
  by (auto simp add: unordered_map_insert_def split: option.splits)

lemma unordered_map_insert_twice:
  "unordered_map_insert (unordered_map_insert m k v) k w = unordered_map_insert m k v"
  by (simp add: unordered_map_insert_def split: option.splits)

lemma Properties_get_present:
  "get_key h i = Some k \<Longrightarrow> mProperties props k = Some c \<Longrightarrow>
   Properties_get h i T props = (Inl bad_optional_access, props)"
  by (simp add: Properties_get_def optional_value_def BaseProperty_get_def)

lemma Properties_get_absent:
  "get_key h i = Some k \<Longrightarrow> mProperties props k = None \<Longrightarrow>
   Properties_get h i T props = (Inr None, props)"
  by (simp add: Properties_get_def)

lemma Properties_get_never_value:
  "fst (Properties_get h i T props) \<noteq> Inr (Some v)"
  by (simp add: Properties_get_def optional_value_def BaseProperty_get_def
      split: option.splits)

lemma Properties_set_present:
  "set_key h i = Some k \<Longrightarrow> mProperties (snd (Properties_set h i v props)) k \<noteq> None"
  by (simp add: Properties_set_def unordered_map_insert_present)

lemma Properties_set_kept:
  "mProperties props k = Some c \<Longrightarrow> mProperties (snd (Properties_set h i v props)) k = Some c"
  by (simp add: Properties_set_def unordered_map_insert_kept split: option.splits)

lemma Properties_set_twice:
  "set_key h j = set_key h i \<Longrightarrow>
   snd (Properties_set h j w (snd (Properties_set h i v props)))
   = snd (Properties_set h i v props)"
  by (cases "set_key h i") (simp_all add: Properties_set_def unordered_map_insert_twice)

lemma Property_get_own_type:
  "Property_get (Property v) (type_of v) = Inr (Some v)"
  by (cases v) (simp_all add: Property_get_def)

lemma sets_kept:
  "mProperties props k = Some c \<Longrightarrow> mProperties (sets h calls props) k = Some c"
  by (induction calls arbitrary: props) (auto simp add: Properties_set_kept)

lemma sets_absent:
  "mProperties props k = None \<Longrightarrow> Some k \<notin> set_key h ` fst ` set calls \<Longrightarrow>
   mProperties (sets h calls props) k = None"
proof (induction calls arbitrary: props)
  case Nil
  then show ?case by simp
next
  case (Cons call calls)
  obtain i v where call: "call = (i, v)" by (cases call)
  from Cons.prems(2) call have here: "set_key h i \<noteq> Some k"
    and later: "Some k \<notin> set_key h ` fst ` set calls"
    by auto
  from here Cons.prems(1) have "mProperties (snd (Properties_set h i v props)) k = None"
    by (auto simp add: Properties_set_def unordered_map_insert_other split: option.splits)
  with later call show ?case
    by (simp add: Cons.IH)
qed

subsection \<open>Reading back what was stored\<close>

text \<open>
  C1. Round-trip: \<^verbatim>\<open>set(id, v)\<close> and then \<^verbatim>\<open>get<IdType, type-of-v>(id)\<close> on the same store
  should return an optional holding \<open>v\<close>. The code does not: the lookup finds the cell and
  calls \<^verbatim>\<open>BaseProperty::get\<close>, which is empty, and \<^verbatim>\<open>value()\<close> throws. This holds for every
  hash, every enumeration identifier, every value and every store the pair of calls
  starts from.
\<close>

theorem roundtrip_get_throws:
  "fst (Properties_get h (EnumId n u) (type_of v)
          (snd (Properties_set h (EnumId n u) v props)))
   = Inl bad_optional_access"
proof -
  let ?after = "snd (Properties_set h (EnumId n u) v props)"
  have "mProperties ?after (hash_size_t h (word_of_int u)) \<noteq> None"
    by (rule Properties_set_present) simp
  then obtain c where "mProperties ?after (hash_size_t h (word_of_int u)) = Some c"
    by blast
  then have "Properties_get h (EnumId n u) (type_of v) ?after = (Inl bad_optional_access, ?after)"
    by (intro Properties_get_present) simp_all
  then show ?thesis by simp
qed

text \<open>
  C2. Overwrite: \<^verbatim>\<open>set(id, v1)\<close> then \<^verbatim>\<open>set(id, v2)\<close> should replace the entry. On a new
  store the code keeps the cell of \<open>v1\<close>: \<^verbatim>\<open>insert\<close> does not touch a key that is
  present. The \<^verbatim>\<open>get\<close> that follows throws. On any store and for any identifier, the
  second \<^verbatim>\<open>set\<close> changes nothing.
\<close>

theorem second_set_keeps_first:
  "mProperties
     (snd (Properties_set h (EnumId n u) v2
        (snd (Properties_set h (EnumId n u) v1 Properties_init))))
     (hash_size_t h (word_of_int u))
   = Some (Property v1)
   \<and> fst (Properties_get h (EnumId n u) T
        (snd (Properties_set h (EnumId n u) v2
           (snd (Properties_set h (EnumId n u) v1 Properties_init)))))
     = Inl bad_optional_access
   \<and> snd (Properties_set h i v2 (snd (Properties_set h i v1 props)))
     = snd (Properties_set h i v1 props)"
proof -
  let ?k = "hash_size_t h (word_of_int u)"
  let ?after = "snd (Properties_set h (EnumId n u) v2
        (snd (Properties_set h (EnumId n u) v1 Properties_init)))"
  have kept: "mProperties ?after ?k = Some (Property v1)"
    by (simp add: Properties_set_def Properties_init_def unordered_map_insert_def)
  then have "Properties_get h (EnumId n u) T ?after = (Inl bad_optional_access, ?after)"
    by (intro Properties_get_present) simp_all
  with kept show ?thesis by (simp add: Properties_set_twice)
qed

text \<open>
  C3. Type mismatch with a fallback: after \<^verbatim>\<open>set(id, v)\<close> with \<open>v\<close> of type A,
  \<^verbatim>\<open>get<IdType, B>(id, fallback)\<close> for another type B should return \<open>fallback\<close>. On the
  store of \<^verbatim>\<open>main\<close>, \<^verbatim>\<open>get(BuildingPropertyId::BuildingType, 0)\<close> (line 289) throws
  instead of returning \<open>0\<close>.
\<close>

theorem main_mismatch_fallback_throws:
  "fst (Properties_get_fallback h (BuildingPropertyId_id BuildingPropertyId_BuildingType)
          (IntV 0) (main_props h))
   = Inl bad_optional_access"
proof -
  have "mProperties (main_props h) (hash_size_t h 1)
        = Some (Property (BuildingType_val BuildingType_TownCenter))"
    unfolding main_props_def
    by (simp add: sets_kept Properties_set_def Properties_init_def unordered_map_insert_def
        BuildingPropertyId_id_def)
  then have "Properties_get h (BuildingPropertyId_id BuildingPropertyId_BuildingType) IntT
               (main_props h) = (Inl bad_optional_access, main_props h)"
    by (intro Properties_get_present) (simp_all add: BuildingPropertyId_id_def)
  then show ?thesis by (simp add: Properties_get_fallback_def)
qed

subsection \<open>The value cell\<close>

text \<open>
  C4. Value-cell contract: \<^verbatim>\<open>Property<A>::get<T>()\<close> should return the value when \<open>T\<close>
  is \<open>A\<close> and empty for every other \<open>T\<close>. \<^verbatim>\<open>Property<int>(5).get<bool>()\<close> is not
  empty: it holds \<^verbatim>\<open>true\<close>, the value converted. And through the base class, which is
  how the store reads a cell, \<^verbatim>\<open>get<int>()\<close> on the same cell is empty.
\<close>

theorem cell_get_converts:
  "Property_get (Property (IntV 5)) BoolT = Inr (Some (BoolV True))
   \<and> BaseProperty_get (Property (IntV 5)) IntT = None"
  by (simp add: Property_get_def BaseProperty_get_def)

subsection \<open>Keys\<close>

text \<open>
  C5. Key dispatch: \<^verbatim>\<open>set\<close> and \<^verbatim>\<open>get\<close> should take the same identifier to the same
  key in each of the three branches. They do for an enumeration. For a trivial type that
  is not an enumeration the branch of \<^verbatim>\<open>get\<close> does not compile, and for any other type
  the branch of \<^verbatim>\<open>set\<close> does not, so neither kind of identifier can be both stored and
  read.
\<close>

theorem key_dispatch_branches:
  "set_key h (EnumId n u) = get_key h (EnumId n u)
   \<and> Properties_get h (TrivialId i) T props = (Inl ill_formed, props)
   \<and> Properties_set h (OtherId sz) v props = (Inl ill_formed, props)"
  by (simp add: Properties_get_def Properties_set_def)

text \<open>
  C7. Collision of namespaces: members of two enumerations with the same underlying
  value have the same key, for \<^verbatim>\<open>set\<close> and for \<^verbatim>\<open>get\<close>. The claim goes on: the later
  write shadows the earlier one. On a new store the code keeps the earlier one, and on
  any store the later write changes nothing.
\<close>

theorem enum_collision_keeps_first:
  "set_key h (EnumId n1 u) = set_key h (EnumId n2 u)
   \<and> get_key h (EnumId n1 u) = get_key h (EnumId n2 u)
   \<and> mProperties
        (snd (Properties_set h (EnumId n2 u) w
           (snd (Properties_set h (EnumId n1 u) v Properties_init))))
        (hash_size_t h (word_of_int u))
      = Some (Property v)
   \<and> snd (Properties_set h (EnumId n2 u) w (snd (Properties_set h (EnumId n1 u) v props)))
     = snd (Properties_set h (EnumId n1 u) v props)"
proof -
  have "mProperties
        (snd (Properties_set h (EnumId n2 u) w
           (snd (Properties_set h (EnumId n1 u) v Properties_init))))
        (hash_size_t h (word_of_int u))
      = Some (Property v)"
    by (simp add: Properties_set_def Properties_init_def unordered_map_insert_def)
  moreover have "snd (Properties_set h (EnumId n2 u) w (snd (Properties_set h (EnumId n1 u) v props)))
     = snd (Properties_set h (EnumId n1 u) v props)"
    by (rule Properties_set_twice) simp
  ultimately show ?thesis by simp
qed

subsection \<open>Absent keys\<close>

text \<open>
  C6, as stated: for an identifier never passed to \<^verbatim>\<open>set\<close>, \<^verbatim>\<open>get(id, fallback)\<close>
  returns \<open>fallback\<close>. It fails where another identifier with the same key was stored:
  after \<^verbatim>\<open>set(CommonPropertyId::HealthPoints, 100)\<close> alone,
  \<^verbatim>\<open>BuildingPropertyId::BuildingType\<close> was never passed to \<^verbatim>\<open>set\<close>, and
  \<^verbatim>\<open>get(BuildingPropertyId::BuildingType, 0)\<close> does not return \<open>0\<close>.
\<close>

theorem absent_identifier_collision:
  "BuildingPropertyId_id BuildingPropertyId_BuildingType
     \<notin> fst ` set [(CommonPropertyId_id CommonPropertyId_HealthPoints, IntV 100)]
   \<and> fst (Properties_get_fallback identity_hash
            (BuildingPropertyId_id BuildingPropertyId_BuildingType) (IntV 0)
            (sets identity_hash [(CommonPropertyId_id CommonPropertyId_HealthPoints, IntV 100)]
               Properties_init))
     \<noteq> Inr (IntV 0)"
  by (simp add: BuildingPropertyId_id_def CommonPropertyId_id_def Properties_get_fallback_def
      Properties_get_def Properties_set_def Properties_init_def unordered_map_insert_def
      optional_value_def BaseProperty_get_def identity_hash_def)

text \<open>
  C6, amended: on a store made by \<^verbatim>\<open>set\<close> calls on a new store, for an identifier
  whose \<^verbatim>\<open>get\<close> has a key (an enumeration, or a type that is not trivial) and whose key
  no call of \<^verbatim>\<open>set\<close> inserted at, \<^verbatim>\<open>get(id, fallback)\<close> returns exactly \<open>fallback\<close> and
  \<^verbatim>\<open>get(id)\<close> returns an empty optional; neither throws.
\<close>

theorem absent_key_fallback:
  assumes "get_key h i = Some k"
    and "Some k \<notin> set_key h ` fst ` set calls"
  shows "fst (Properties_get_fallback h i fallback (sets h calls Properties_init)) = Inr fallback
         \<and> fst (Properties_get h i T (sets h calls Properties_init)) = Inr None"
proof -
  have "mProperties (sets h calls Properties_init) k = None"
    using assms(2) by (intro sets_absent) (simp_all add: Properties_init_def)
  with assms(1) have "Properties_get h i T' (sets h calls Properties_init)
                      = (Inr None, sets h calls Properties_init)" for T'
    by (rule Properties_get_absent)
  then show ?thesis by (simp add: Properties_get_fallback_def)
qed

text \<open>
  The last call of \<^verbatim>\<open>main\<close> (line 290): \<^verbatim>\<open>get(BuildingPropertyId::Invalid, 0)\<close> on the
  store of the entity returns \<open>0\<close>.
\<close>

theorem absent_key_fallback_witness:
  "get_key identity_hash (BuildingPropertyId_id BuildingPropertyId_Invalid) = Some 0
   \<and> Some 0 \<notin> set_key identity_hash ` fst ` set
        [(BuildingPropertyId_id BuildingPropertyId_BuildingType,
          BuildingType_val BuildingType_TownCenter),
         (BuildingPropertyId_id BuildingPropertyId_Bounds, BoundsV (Bounds_init 0 0 2 2))]
   \<and> fst (Properties_get_fallback identity_hash (BuildingPropertyId_id BuildingPropertyId_Invalid)
            (IntV 0) (main_props identity_hash))
     = Inr (IntV 0)
   \<and> fst (Properties_get identity_hash (BuildingPropertyId_id BuildingPropertyId_Invalid)
            IntT (main_props identity_hash))
     = Inr None"
proof -
  let ?calls = "[(BuildingPropertyId_id BuildingPropertyId_BuildingType,
          BuildingType_val BuildingType_TownCenter),
         (BuildingPropertyId_id BuildingPropertyId_Bounds, BoundsV (Bounds_init 0 0 2 2))]"
  have key: "get_key identity_hash (BuildingPropertyId_id BuildingPropertyId_Invalid) = Some 0"
    by (simp add: BuildingPropertyId_id_def identity_hash_def)
  have unused: "Some 0 \<notin> set_key identity_hash ` fst ` set ?calls"
    by (simp add: BuildingPropertyId_id_def identity_hash_def)
  have store: "main_props identity_hash = sets identity_hash ?calls Properties_init"
    by (simp only: main_props_def)
  from key unused store absent_key_fallback [OF key unused, of "IntV 0" IntT]
  show ?thesis by (simp only: simp_thms)
qed

subsection \<open>Where a call stops\<close>

text \<open>
  C8. The assertion on a type mismatch should be the only way the store stops the
  program. The code has no assertion, and \<^verbatim>\<open>get\<close> throws on every key that is present,
  also when the type asked for is the type stored: on the store of \<^verbatim>\<open>main\<close>,
  \<^verbatim>\<open>get(BuildingPropertyId::BuildingType, BuildingType::Invalid)\<close> (line 288) throws.
\<close>

theorem main_matching_get_throws:
  "type_of (BuildingType_val BuildingType_Invalid) = type_of (BuildingType_val BuildingType_TownCenter)
   \<and> fst (Properties_get_fallback h (BuildingPropertyId_id BuildingPropertyId_BuildingType)
            (BuildingType_val BuildingType_Invalid) (main_props h))
     = Inl bad_optional_access"
proof -
  have "mProperties (main_props h) (hash_size_t h 1)
        = Some (Property (BuildingType_val BuildingType_TownCenter))"
    unfolding main_props_def
    by (simp add: sets_kept Properties_set_def Properties_init_def unordered_map_insert_def
        BuildingPropertyId_id_def)
  then have "Properties_get h (BuildingPropertyId_id BuildingPropertyId_BuildingType) T
               (main_props h) = (Inl bad_optional_access, main_props h)" for T
    by (intro Properties_get_present) (simp_all add: BuildingPropertyId_id_def)
  then show ?thesis by (simp add: Properties_get_fallback_def BuildingType_val_def)
qed

subsection \<open>Frame\<close>

text \<open>
  C10. Both forms of \<^verbatim>\<open>get\<close> leave the store as it was, however they end, and
  \<^verbatim>\<open>set(id, v)\<close> changes the entry of no key other than the key of \<open>id\<close>.
\<close>

theorem store_frame:
  "snd (Properties_get h i T props) = props
   \<and> snd (Properties_get_fallback h i fallback props) = props
   \<and> (set_key h j \<noteq> Some k \<longrightarrow>
        mProperties (snd (Properties_set h j v props)) k = mProperties props k)"
proof -
  have get: "snd (Properties_get h i T' props) = props" for T'
    by (simp add: Properties_get_def split: option.splits sum.splits)
  have "snd (Properties_get_fallback h i fallback props)
        = snd (Properties_get h i (type_of fallback) props)"
    by (simp add: Properties_get_fallback_def split: prod.splits sum.splits option.splits)
  with get have fallback: "snd (Properties_get_fallback h i fallback props) = props"
    by simp
  have "mProperties (snd (Properties_set h j v props)) k = mProperties props k"
    if "set_key h j \<noteq> Some k"
    using that
    by (auto simp add: Properties_set_def unordered_map_insert_other split: option.splits)
  with get fallback show ?thesis by simp
qed

text \<open>
  In \<^verbatim>\<open>main\<close>: the second \<^verbatim>\<open>set\<close>, of \<^verbatim>\<open>BuildingPropertyId::Bounds\<close>, leaves the cell
  that the first one stored for \<^verbatim>\<open>BuildingPropertyId::BuildingType\<close>.
\<close>

theorem store_frame_witness:
  "set_key identity_hash (BuildingPropertyId_id BuildingPropertyId_Bounds) \<noteq> Some 1
   \<and> mProperties
        (snd (Properties_set identity_hash (BuildingPropertyId_id BuildingPropertyId_Bounds)
           (BoundsV (Bounds_init 0 0 2 2))
           (snd (Properties_set identity_hash
              (BuildingPropertyId_id BuildingPropertyId_BuildingType)
              (BuildingType_val BuildingType_TownCenter) Properties_init))))
        1
      = Some (Property (BuildingType_val BuildingType_TownCenter))"
proof -
  let ?first = "snd (Properties_set identity_hash
      (BuildingPropertyId_id BuildingPropertyId_BuildingType)
      (BuildingType_val BuildingType_TownCenter) Properties_init)"
  have other: "set_key identity_hash (BuildingPropertyId_id BuildingPropertyId_Bounds) \<noteq> Some 1"
    by (simp add: BuildingPropertyId_id_def identity_hash_def)
  have stored: "mProperties ?first 1 = Some (Property (BuildingType_val BuildingType_TownCenter))"
    by (simp add: Properties_set_def Properties_init_def unordered_map_insert_def
        BuildingPropertyId_id_def identity_hash_def)
  from other stored
    store_frame [of identity_hash "BuildingPropertyId_id BuildingPropertyId_Invalid" IntT ?first
      "IntV 0" "BuildingPropertyId_id BuildingPropertyId_Bounds" 1 "BoundsV (Bounds_init 0 0 2 2)"]
  show ?thesis by simp
qed

subsection \<open>Bounds\<close>

text \<open>
  C9. For \<^verbatim>\<open>Bounds(0,0,2,2)\<close>: \<^verbatim>\<open>contains(0,0)\<close> is true, \<^verbatim>\<open>contains(2,2)\<close> is true (the
  edge at \<^verbatim>\<open>x + width\<close>, \<^verbatim>\<open>y + height\<close> belongs to the rectangle), \<^verbatim>\<open>contains(3,3)\<close> is
  false and \<^verbatim>\<open>contains(-1,0)\<close> is false.
\<close>

theorem contains_unit_square:
  "contains (Bounds_init 0 0 2 2) 0 0 = Some True
   \<and> contains (Bounds_init 0 0 2 2) 2 2 = Some True
   \<and> contains (Bounds_init 0 0 2 2) 3 3 = Some False
   \<and> contains (Bounds_init 0 0 2 2) (- 1) 0 = Some False"
  by (simp add: contains_def Bounds_init_def int_add_def)

end
